theory Spec2Isabelle
  imports Main "HOL-Library.Word"
begin

section \<open>The flux service layer (service.go)\<close>

text \<open>
  The file \<^verbatim>\<open>service.go\<close> implements the \<^verbatim>\<open>flux.Service\<close> interface on top of four
  collaborators that live in other packages: the image registry client, the Kubernetes
  cluster (the platform), the automator and the history database. Only the service is
  in the file; the collaborators are taken as parameters, one record of methods each,
  holding exactly the methods that the service calls.

  Conventions of the embedding:
  \<^item> a Go result \<^verbatim>\<open>(value, error)\<close> is a pair whose second component is an
    \<open>error option\<close>, \<open>None\<close> for \<^verbatim>\<open>nil\<close>; a \<^verbatim>\<open>nil\<close> slice is \<open>[]\<close> and a
    \<^verbatim>\<open>nil\<close> map is \<open>Map.empty\<close>;
  \<^item> the queries of the registry and of the cluster are functions of their arguments:
    the service is a stateless request/response layer over them and never writes to them,
    except for the rolling update, whose result is all the service sees of it;
  \<^item> the history database and the automator are written to by the service, so their
    methods pass a state explicitly; every operation of the service takes the state of
    the two (a \<open>world\<close>) and returns it, changed or not;
  \<^item> exported fields and methods of the other packages carry the name of their type
    in front (\<open>Container_Image\<close> for \<^verbatim>\<open>Container.Image\<close>), since several of them share
    a name with a method of the service.
\<close>

subsection \<open>Errors\<close>

text \<open>
  A Go error is a value with an identity (errors are compared with \<^verbatim>\<open>==\<close>) and a text
  (its \<^verbatim>\<open>Error()\<close> method). The service returns one error value of its own,
  \<^verbatim>\<open>ErrNoPlatformConfigured\<close>, and compares with one of the history package,
  \<^verbatim>\<open>history.ErrNoHistory\<close>; every other error value is the collaborators' business.
\<close>

datatype error_identity = NoPlatformConfigured | NoHistory | OtherError

datatype error = GoError (identity: error_identity) (Error: string)

definition ErrNoPlatformConfigured :: error where
  "ErrNoPlatformConfigured = GoError NoPlatformConfigured ''no platform configured''"

text \<open>The test \<^verbatim>\<open>err == history.ErrNoHistory\<close> on a possibly \<^verbatim>\<open>nil\<close> error.\<close>

definition is_ErrNoHistory :: "error option \<Rightarrow> bool" where
  "is_ErrNoHistory err = (case err of None \<Rightarrow> False | Some e \<Rightarrow> identity e = NoHistory)"

text \<open>
  What a call does: it returns, or it panics. The one panic of the model is the
  dereference of a \<^verbatim>\<open>nil\<close> pointer.
\<close>

datatype panic = NilPointerDereference

datatype 'a outcome = Returns 'a | Panics panic

subsection \<open>Types of the other packages\<close>

text \<open>
  Modelled from the spec: the type \<^verbatim>\<open>history.ServiceState\<close> and its three constants
  are declared in the history package. The spec gives the state register the values
  Rest, InProgress and Unknown.
\<close>

datatype ServiceState = StateUnknown | StateRest | StateInProgress

text \<open>
  Modelled from the spec: the struct \<^verbatim>\<open>history.History\<close> is declared in the history
  package. The service writes its fields \<^verbatim>\<open>Service\<close> and \<^verbatim>\<open>State\<close>; the spec adds the
  sequence of events, here the texts of the events, oldest first (time stamps are
  outside the model). A struct literal leaves the fields it does not name at their zero
  value, so the events of a literal without events are \<open>[]\<close>.
\<close>

record History =
  History_Service :: string
  History_State :: ServiceState
  History_Events :: "string list"

text \<open>
  Modelled from the spec: the struct \<^verbatim>\<open>platform.Container\<close> is declared in the platform
  package. The service reads its field \<^verbatim>\<open>Image\<close>; the spec describes a running container
  as a pair of a container name and the current image reference.
\<close>

record Container =
  Container_Name :: string
  Container_Image :: string

text \<open>
  The struct \<^verbatim>\<open>registry.Repository\<close>, of which the service reads the field
  \<^verbatim>\<open>Images\<close> only. The type \<^verbatim>\<open>registry.Image\<close> is opaque to the service: the
  type variable \<open>'i\<close>.
\<close>

record 'i Repository =
  Repository_Images :: "'i list"

text \<open>The struct \<^verbatim>\<open>ContainerImages\<close> of the file itself.\<close>

record 'i ContainerImages =
  ContainerImages_Container :: Container
  ContainerImages_Images :: "'i list"

type_synonym byte = "8 word"

text \<open>\<^verbatim>\<open>time.Duration\<close> is a 64-bit integer; the service hands it on unread.\<close>

type_synonym Duration = "64 word"

subsection \<open>The collaborators\<close>

text \<open>
  The registry package as the service uses it: the method \<^verbatim>\<open>GetRepository\<close> of the
  client, the package function \<^verbatim>\<open>registry.ParseImage\<close> and the method
  \<^verbatim>\<open>Repository()\<close> of the image it returns. None of the three is in the file, so the
  three are parameters. \<^verbatim>\<open>GetRepository\<close> is taken to return a repository whenever it
  returns no error.
\<close>

record 'i Client =
  Client_GetRepository :: "string \<Rightarrow> 'i Repository \<times> error option"
  registry_ParseImage :: "string \<Rightarrow> 'i"
  Image_Repository :: "'i \<Rightarrow> string"

text \<open>
  The methods of \<^verbatim>\<open>kubernetes.Cluster\<close> that the service calls. The type
  \<^verbatim>\<open>platform.Service\<close> is opaque to the service: the type variable \<open>'p\<close>.
\<close>

record 'p Cluster =
  Cluster_ContainersFor :: "string \<Rightarrow> string \<Rightarrow> Container list \<times> error option"
  Cluster_Services :: "string \<Rightarrow> 'p list \<times> error option"
  Cluster_Release :: "string \<Rightarrow> string \<Rightarrow> byte list \<Rightarrow> Duration \<Rightarrow> error option"

text \<open>
  The interface \<^verbatim>\<open>history.DB\<close>, over a state \<open>'h\<close> of the database: two queries and
  two commands.
\<close>

record 'h DB =
  DB_AllEvents :: "string \<Rightarrow> 'h \<Rightarrow> (string \<rightharpoonup> History) \<times> error option"
  DB_EventsForService :: "string \<Rightarrow> string \<Rightarrow> 'h \<Rightarrow> History \<times> error option"
  DB_LogEvent :: "string \<Rightarrow> string \<Rightarrow> string \<Rightarrow> 'h \<Rightarrow> 'h"
  DB_ChangeState :: "string \<Rightarrow> string \<Rightarrow> ServiceState \<Rightarrow> 'h \<Rightarrow> 'h"

text \<open>The two methods of the automator, over a state \<open>'a\<close> of the automator.\<close>

record 'a Automator =
  Automator_Enable :: "string \<Rightarrow> string \<Rightarrow> 'a \<Rightarrow> 'a"
  Automator_Disable :: "string \<Rightarrow> string \<Rightarrow> 'a \<Rightarrow> 'a"

subsection \<open>The service\<close>

text \<open>
  The struct \<^verbatim>\<open>service\<close>. Its \<^verbatim>\<open>platform\<close> field is a pointer that \<^verbatim>\<open>Services\<close> and
  \<^verbatim>\<open>Release\<close> test for \<^verbatim>\<open>nil\<close>: an option. The other three collaborators are taken
  to be there.
\<close>

record ('i, 'p, 'h, 'a) service =
  registry :: "'i Client"
  platform :: "'p Cluster option"
  automator :: "'a Automator"
  history :: "'h DB"

definition NewService ::
  "'i Client \<Rightarrow> 'p Cluster option \<Rightarrow> 'a Automator \<Rightarrow> 'h DB \<Rightarrow> ('i, 'p, 'h, 'a) service" where
  "NewService reg k8s auto hist =
     \<lparr>registry = reg, platform = k8s, automator = auto, history = hist\<rparr>"

text \<open>The state that the service can write to: the history database and the automator.\<close>

record ('h, 'a) world =
  history_state :: 'h
  automator_state :: 'a

definition DefaultNamespace :: string where
  "DefaultNamespace = ''default''"

definition Images ::
  "('i, 'p, 'h, 'a) service \<Rightarrow> string \<Rightarrow> ('h, 'a) world \<Rightarrow>
     ('i list \<times> error option) \<times> ('h, 'a) world" where
  "Images s repository w =
     (case Client_GetRepository (registry s) repository of
        (repo, err) \<Rightarrow>
          if err \<noteq> None then (([], err), w)
          else ((Repository_Images repo, None), w))"

text \<open>
  The loop of \<^verbatim>\<open>ServiceImages\<close> over the containers, with the slice \<^verbatim>\<open>result\<close> built
  so far.
\<close>

fun ServiceImages_loop ::
  "'i Client \<Rightarrow> Container list \<Rightarrow> 'i ContainerImages list \<Rightarrow>
     'i ContainerImages list \<times> error option" where
  "ServiceImages_loop reg [] result = (result, None)"
| "ServiceImages_loop reg (container # containers) result =
     (case Client_GetRepository reg
             (Image_Repository reg (registry_ParseImage reg (Container_Image container))) of
        (repository, err) \<Rightarrow>
          if err \<noteq> None then ([], err)
          else ServiceImages_loop reg containers
                 (result @ [\<lparr>ContainerImages_Container = container,
                             ContainerImages_Images = Repository_Images repository\<rparr>]))"

text \<open>
  \<^verbatim>\<open>ServiceImages\<close> calls \<^verbatim>\<open>s.platform.ContainersFor\<close> without a test of
  \<^verbatim>\<open>s.platform\<close>. When the pointer is \<^verbatim>\<open>nil\<close> the call still enters the method
  \<^verbatim>\<open>ContainersFor\<close> of \<^verbatim>\<open>kubernetes.Cluster\<close>, with the \<^verbatim>\<open>nil\<close> receiver, and the
  body of the method decides what happens: a method that reads a field of its receiver
  panics, a method that tests its receiver first may return. The body is not in the file,
  so the outcome of the method at the \<^verbatim>\<open>nil\<close> receiver is a parameter of
  \<^verbatim>\<open>ServiceImages\<close>, \<open>through_nil\<close>. When the call panics, so does
  \<^verbatim>\<open>ServiceImages\<close>; when it returns, \<^verbatim>\<open>ServiceImages\<close> goes on as after any
  call of \<^verbatim>\<open>ContainersFor\<close>.
\<close>

type_synonym nil_ContainersFor = "string \<Rightarrow> string \<Rightarrow> (Container list \<times> error option) outcome"

definition ServiceImages ::
  "nil_ContainersFor \<Rightarrow> ('i, 'p, 'h, 'a) service \<Rightarrow> string \<Rightarrow> string \<Rightarrow> ('h, 'a) world \<Rightarrow>
     ('i ContainerImages list \<times> error option) outcome \<times> ('h, 'a) world" where
  "ServiceImages through_nil s namespace service w =
     (case (case platform s of
              None \<Rightarrow> through_nil namespace service
            | Some p \<Rightarrow> Returns (Cluster_ContainersFor p namespace service)) of
        Panics x \<Rightarrow> (Panics x, w)
      | Returns (containers, err) \<Rightarrow>
          if err \<noteq> None then (Returns ([], err), w)
          else (Returns (ServiceImages_loop (registry s) containers []), w))"

definition Services ::
  "('i, 'p, 'h, 'a) service \<Rightarrow> string \<Rightarrow> ('h, 'a) world \<Rightarrow>
     ('p list \<times> error option) \<times> ('h, 'a) world" where
  "Services s namespace w =
     (case platform s of
        None \<Rightarrow> (([], Some ErrNoPlatformConfigured), w)
      | Some p \<Rightarrow> (Cluster_Services p namespace, w))"

definition History ::
  "('i, 'p, 'h, 'a) service \<Rightarrow> string \<Rightarrow> string \<Rightarrow> ('h, 'a) world \<Rightarrow>
     ((string \<rightharpoonup> History) \<times> error option) \<times> ('h, 'a) world" where
  "History s namespace service w =
     (if service = [] then (DB_AllEvents (history s) namespace (history_state w), w)
      else
        (case DB_EventsForService (history s) namespace service (history_state w) of
           (h, err) \<Rightarrow>
             if is_ErrNoHistory err then
               (let h' = \<lparr>History_Service = service, History_State = StateUnknown,
                          History_Events = []\<rparr>
                in (([History_Service h' \<mapsto> h'], None), w))
             else if err \<noteq> None then ((Map.empty, err), w)
             else (([History_Service h \<mapsto> h], None), w)))"

text \<open>
  \<^verbatim>\<open>Release\<close> has a named result \<^verbatim>\<open>err\<close> and a deferred function that reads it: the
  deferred function runs after the result of the rolling update has been stored in
  \<^verbatim>\<open>err\<close> and before \<^verbatim>\<open>Release\<close> returns.
\<close>

definition Release ::
  "('i, 'p, 'h, 'a) service \<Rightarrow> string \<Rightarrow> string \<Rightarrow> byte list \<Rightarrow> Duration \<Rightarrow>
     ('h, 'a) world \<Rightarrow> error option \<times> ('h, 'a) world" where
  "Release s namespace service newDef updatePeriod w =
     (case platform s of
        None \<Rightarrow> (Some ErrNoPlatformConfigured, w)
      | Some p \<Rightarrow>
          (let h1 = DB_ChangeState (history s) namespace service StateInProgress
                      (history_state w);
               err = Cluster_Release p namespace service newDef updatePeriod;
               h2 = (case err of
                       Some e \<Rightarrow>
                         DB_LogEvent (history s) namespace service
                           (''Release failed: '' @ Error e) h1
                     | None \<Rightarrow>
                         DB_LogEvent (history s) namespace service ''Release succeeded'' h1);
               h3 = DB_ChangeState (history s) namespace service StateRest h2
           in (err, w\<lparr>history_state := h3\<rparr>)))"

definition Automate ::
  "('i, 'p, 'h, 'a) service \<Rightarrow> string \<Rightarrow> string \<Rightarrow> ('h, 'a) world \<Rightarrow>
     error option \<times> ('h, 'a) world" where
  "Automate s namespace service w =
     (None, w\<lparr>automator_state :=
                 Automator_Enable (automator s) namespace service (automator_state w)\<rparr>)"

definition Deautomate ::
  "('i, 'p, 'h, 'a) service \<Rightarrow> string \<Rightarrow> string \<Rightarrow> ('h, 'a) world \<Rightarrow>
     error option \<times> ('h, 'a) world" where
  "Deautomate s namespace service w =
     (None, w\<lparr>automator_state :=
                 Automator_Disable (automator s) namespace service (automator_state w)\<rparr>)"

subsection \<open>A history store and the collaborators of the spec's scenario\<close>

text \<open>
  Modelled from the spec: the history store behind \<^verbatim>\<open>history.DB\<close> is not in the file.
  The spec describes it as an append-only event log plus a current-state register per
  (namespace, workload): a map from the pair to the record of the workload. A record
  that a command creates starts in the state Rest, the initial state of the spec, with no
  event; \<^verbatim>\<open>LogEvent\<close> appends the text to the events of the record and
  \<^verbatim>\<open>ChangeState\<close> sets its register; the query for one workload reports no history
  when the store has no record of it. The error of that report stands for
  \<^verbatim>\<open>history.ErrNoHistory\<close>, whose text is not in the file either; nothing below
  depends on the text.
\<close>

type_synonym store = "string \<times> string \<rightharpoonup> History"

definition ErrNoHistory :: error where
  "ErrNoHistory = GoError NoHistory ''no history''"

definition store_record :: "store \<Rightarrow> string \<Rightarrow> string \<Rightarrow> History" where
  "store_record h namespace service =
     (case h (namespace, service) of
        None \<Rightarrow> \<lparr>History_Service = service, History_State = StateRest, History_Events = []\<rparr>
      | Some r \<Rightarrow> r)"

definition store_AllEvents :: "string \<Rightarrow> store \<Rightarrow> (string \<rightharpoonup> History) \<times> error option" where
  "store_AllEvents namespace h = ((\<lambda>service. h (namespace, service)), None)"

definition store_EventsForService :: "string \<Rightarrow> string \<Rightarrow> store \<Rightarrow> History \<times> error option" where
  "store_EventsForService namespace service h =
     (case h (namespace, service) of
        None \<Rightarrow> (\<lparr>History_Service = [], History_State = StateUnknown, History_Events = []\<rparr>,
                 Some ErrNoHistory)
      | Some r \<Rightarrow> (r, None))"

definition store_LogEvent :: "string \<Rightarrow> string \<Rightarrow> string \<Rightarrow> store \<Rightarrow> store" where
  "store_LogEvent namespace service msg h =
     h((namespace, service) \<mapsto>
         (store_record h namespace service)
           \<lparr>History_Events := History_Events (store_record h namespace service) @ [msg]\<rparr>)"

definition store_ChangeState :: "string \<Rightarrow> string \<Rightarrow> ServiceState \<Rightarrow> store \<Rightarrow> store" where
  "store_ChangeState namespace service newState h =
     h((namespace, service) \<mapsto> (store_record h namespace service)\<lparr>History_State := newState\<rparr>)"

definition storeDB :: "store DB" where
  "storeDB =
     \<lparr>DB_AllEvents = store_AllEvents, DB_EventsForService = store_EventsForService,
      DB_LogEvent = store_LogEvent, DB_ChangeState = store_ChangeState\<rparr>"

text \<open>The events and the state register that the store holds for a workload.\<close>

definition store_events :: "store \<Rightarrow> string \<Rightarrow> string \<Rightarrow> string list" where
  "store_events h namespace service =
     (case h (namespace, service) of None \<Rightarrow> [] | Some r \<Rightarrow> History_Events r)"

definition store_state :: "store \<Rightarrow> string \<Rightarrow> string \<Rightarrow> ServiceState option" where
  "store_state h namespace service = map_option History_State (h (namespace, service))"

text \<open>
  Modelled from the spec: the automator is not in the file; the spec describes a boolean
  flag per (namespace, workload) that \<^verbatim>\<open>Enable\<close> sets and \<^verbatim>\<open>Disable\<close> clears.
\<close>

type_synonym flags = "string \<times> string \<Rightarrow> bool"

definition flagAutomator :: "flags Automator" where
  "flagAutomator =
     \<lparr>Automator_Enable = (\<lambda>namespace service a. a((namespace, service) := True)),
      Automator_Disable = (\<lambda>namespace service a. a((namespace, service) := False))\<rparr>"

text \<open>
  Modelled from the spec: \<^verbatim>\<open>registry.Image\<close>, \<^verbatim>\<open>registry.ParseImage\<close> and
  \<^verbatim>\<open>Image.Repository\<close> are not in the file. The spec describes an image as a repository
  name, a tag and a creation time stamp, and the repository of an image reference as the
  reference with the tag component stripped. The tag is taken to be what follows the last
  colon of the reference, when no slash follows that colon.
\<close>

record TaggedImage =
  TaggedImage_Name :: string
  TaggedImage_Tag :: string
  TaggedImage_CreatedAt :: nat

definition ParseImage :: "string \<Rightarrow> TaggedImage" where
  "ParseImage reference =
     (let tag = rev (takeWhile (\<lambda>c. c \<noteq> CHR '':'') (rev reference))
      in if length tag = length reference \<or> CHR ''/'' \<in> set tag
         then \<lparr>TaggedImage_Name = reference, TaggedImage_Tag = [], TaggedImage_CreatedAt = 0\<rparr>
         else \<lparr>TaggedImage_Name = take (length reference - length tag - 1) reference,
               TaggedImage_Tag = tag, TaggedImage_CreatedAt = 0\<rparr>)"

text \<open>
  The scenario of the spec: the repository \<^verbatim>\<open>app\<close> holds three images, newest first;
  in the namespace \<^verbatim>\<open>prod\<close> the workload \<^verbatim>\<open>web\<close> runs one container on
  \<^verbatim>\<open>app:v1\<close>. The workload \<^verbatim>\<open>shop\<close> is added for the failure of a lookup: its second
  container runs an image of a repository that the registry does not know. The rolling
  update of the cluster returns the result \<open>r\<close> that the cluster is built with.
\<close>

definition app_images :: "TaggedImage list" where
  "app_images =
     [\<lparr>TaggedImage_Name = ''app'', TaggedImage_Tag = ''v3'', TaggedImage_CreatedAt = 3\<rparr>,
      \<lparr>TaggedImage_Name = ''app'', TaggedImage_Tag = ''v2'', TaggedImage_CreatedAt = 2\<rparr>,
      \<lparr>TaggedImage_Name = ''app'', TaggedImage_Tag = ''v1'', TaggedImage_CreatedAt = 1\<rparr>]"

definition scenario_registry :: "TaggedImage Client" where
  "scenario_registry =
     \<lparr>Client_GetRepository =
        (\<lambda>repository.
           if repository = ''app'' then (\<lparr>Repository_Images = app_images\<rparr>, None)
           else (\<lparr>Repository_Images = []\<rparr>, Some (GoError OtherError ''repository not found''))),
      registry_ParseImage = ParseImage,
      Image_Repository = TaggedImage_Name\<rparr>"

definition scenario_cluster :: "error option \<Rightarrow> string Cluster" where
  "scenario_cluster r =
     \<lparr>Cluster_ContainersFor =
        (\<lambda>namespace service.
           if namespace = ''prod'' \<and> service = ''web'' then
             ([\<lparr>Container_Name = ''web'', Container_Image = ''app:v1''\<rparr>], None)
           else if namespace = ''prod'' \<and> service = ''shop'' then
             ([\<lparr>Container_Name = ''front'', Container_Image = ''app:v2''\<rparr>,
               \<lparr>Container_Name = ''cache'', Container_Image = ''kv:v7''\<rparr>,
               \<lparr>Container_Name = ''api'', Container_Image = ''app:v1''\<rparr>], None)
           else ([], Some (GoError OtherError ''service not found''))),
      Cluster_Services =
        (\<lambda>namespace. if namespace = ''prod'' then ([''web'', ''shop''], None) else ([], None)),
      Cluster_Release = (\<lambda>namespace service newDef updatePeriod. r)\<rparr>"

definition scenario_service ::
  "string Cluster option \<Rightarrow> (TaggedImage, string, store, flags) service" where
  "scenario_service k8s = NewService scenario_registry k8s flagAutomator storeDB"

definition scenario_world :: "(store, flags) world" where
  "scenario_world = \<lparr>history_state = Map.empty, automator_state = (\<lambda>k. False)\<rparr>"

definition timeout_error :: error where
  "timeout_error = GoError OtherError ''timeout''"

subsection \<open>Notions used in the statements\<close>

text \<open>The text of the event that the deferred function of \<^verbatim>\<open>Release\<close> logs.\<close>

definition release_event :: "error option \<Rightarrow> string" where
  "release_event err =
     (case err of None \<Rightarrow> ''Release succeeded'' | Some e \<Rightarrow> ''Release failed: '' @ Error e)"

text \<open>
  The repository of the image that a container runs, and the answer of the registry for
  it: the lookup that one round of the loop of \<^verbatim>\<open>ServiceImages\<close> makes.
\<close>

definition container_repository :: "'i Client \<Rightarrow> Container \<Rightarrow> string" where
  "container_repository reg container =
     Image_Repository reg (registry_ParseImage reg (Container_Image container))"

definition container_lookup :: "'i Client \<Rightarrow> Container \<Rightarrow> 'i Repository \<times> error option" where
  "container_lookup reg container =
     Client_GetRepository reg (container_repository reg container)"

text \<open>
  The pairing that one round of the loop appends to \<^verbatim>\<open>result\<close> when the lookup
  succeeds.
\<close>

definition container_images :: "'i Client \<Rightarrow> Container \<Rightarrow> 'i ContainerImages" where
  "container_images reg container =
     \<lparr>ContainerImages_Container = container,
      ContainerImages_Images = Repository_Images (fst (container_lookup reg container))\<rparr>"

text \<open>
  Modelled from the spec: what the spec asks of a history store, as laws of the two
  commands of \<^verbatim>\<open>history.DB\<close>. The store keeps an append-only event log and a state
  register per (namespace, workload): \<open>events\<close> and \<open>state\<close> read the two off a state of
  the database. \<^verbatim>\<open>LogEvent\<close> appends its text to the log of its workload and changes
  nothing of another workload; \<^verbatim>\<open>ChangeState\<close> sets the register of its workload and
  changes no log and no other register.
\<close>

definition keeps_log_and_register ::
  "'h DB \<Rightarrow> ('h \<Rightarrow> string \<Rightarrow> string \<Rightarrow> string list) \<Rightarrow>
     ('h \<Rightarrow> string \<Rightarrow> string \<Rightarrow> ServiceState option) \<Rightarrow> bool" where
  "keeps_log_and_register d events state \<longleftrightarrow>
     (\<forall>n v msg h n' v'.
        events (DB_LogEvent d n v msg h) n' v' =
          (if (n', v') = (n, v) then events h n v @ [msg] else events h n' v')) \<and>
     (\<forall>n v msg h n' v'.
        (n', v') \<noteq> (n, v) \<longrightarrow> state (DB_LogEvent d n v msg h) n' v' = state h n' v') \<and>
     (\<forall>n v st h n' v'. events (DB_ChangeState d n v st h) n' v' = events h n' v') \<and>
     (\<forall>n v st h n' v'.
        state (DB_ChangeState d n v st h) n' v' =
          (if (n', v') = (n, v) then Some st else state h n' v'))"

text \<open>
  A history database for the test of \<^verbatim>\<open>History\<close>: it keeps nothing, and labels the
  record of a workload with the name of the workload qualified by its namespace. It
  implements the interface \<^verbatim>\<open>history.DB\<close>.
\<close>

definition qualified_record :: "string \<Rightarrow> string \<Rightarrow> History" where
  "qualified_record namespace service =
     \<lparr>History_Service = namespace @ ''/'' @ service, History_State = StateRest,
      History_Events = []\<rparr>"

definition qualifyingDB :: "unit DB" where
  "qualifyingDB =
     \<lparr>DB_AllEvents = (\<lambda>namespace h. (Map.empty, None)),
      DB_EventsForService = (\<lambda>namespace service h. (qualified_record namespace service, None)),
      DB_LogEvent = (\<lambda>namespace service msg h. h),
      DB_ChangeState = (\<lambda>namespace service newState h. h)\<rparr>"

definition qualifying_service :: "(TaggedImage, string, unit, flags) service" where
  "qualifying_service = NewService scenario_registry None flagAutomator qualifyingDB"

definition qualifying_world :: "(unit, flags) world" where
  "qualifying_world = \<lparr>history_state = (), automator_state = (\<lambda>k. False)\<rparr>"

text \<open>
  Collaborators that echo the namespace they are called with: the queries put it into
  their answer, the rolling update into the text of its error, and the commands of the
  history database and of the automator append it to their state.
\<close>

definition echo_cluster :: "string Cluster" where
  "echo_cluster =
     \<lparr>Cluster_ContainersFor =
        (\<lambda>namespace service.
           ([\<lparr>Container_Name = namespace, Container_Image = ''app:v1''\<rparr>], None)),
      Cluster_Services = (\<lambda>namespace. ([namespace], None)),
      Cluster_Release =
        (\<lambda>namespace service newDef updatePeriod. Some (GoError OtherError namespace))\<rparr>"

definition echo_record :: "string \<Rightarrow> History" where
  "echo_record namespace =
     \<lparr>History_Service = namespace, History_State = StateRest, History_Events = []\<rparr>"

definition echoDB :: "string list DB" where
  "echoDB =
     \<lparr>DB_AllEvents = (\<lambda>namespace h. ([namespace \<mapsto> echo_record namespace], None)),
      DB_EventsForService = (\<lambda>namespace service h. (echo_record namespace, None)),
      DB_LogEvent = (\<lambda>namespace service msg h. h @ [namespace]),
      DB_ChangeState = (\<lambda>namespace service newState h. h @ [namespace])\<rparr>"

definition echo_automator :: "string list Automator" where
  "echo_automator =
     \<lparr>Automator_Enable = (\<lambda>namespace service a. a @ [namespace]),
      Automator_Disable = (\<lambda>namespace service a. a @ [namespace])\<rparr>"

definition echo_service :: "(TaggedImage, string, string list, string list) service" where
  "echo_service = NewService scenario_registry (Some echo_cluster) echo_automator echoDB"

definition echo_world :: "(string list, string list) world" where
  "echo_world = \<lparr>history_state = [], automator_state = []\<rparr>"

text \<open>
  Two bodies that \<^verbatim>\<open>ContainersFor\<close> may have, at the \<^verbatim>\<open>nil\<close> receiver: one reads a
  field of its receiver at once, the other tests its receiver and returns an error of its
  own.
\<close>

definition reading_ContainersFor :: nil_ContainersFor where
  "reading_ContainersFor = (\<lambda>namespace service. Panics NilPointerDereference)"


text \<open>
  The service \<open>s\<close> with its collaborators pinned to the namespace \<open>n\<close>: they disregard
  the namespace that they are called with and answer as those of \<open>s\<close> do at \<open>n\<close>.
\<close>

definition Cluster_at :: "string \<Rightarrow> 'p Cluster \<Rightarrow> 'p Cluster" where
  "Cluster_at n p =
     \<lparr>Cluster_ContainersFor = (\<lambda>namespace. Cluster_ContainersFor p n),
      Cluster_Services = (\<lambda>namespace. Cluster_Services p n),
      Cluster_Release = (\<lambda>namespace. Cluster_Release p n)\<rparr>"

definition DB_at :: "string \<Rightarrow> 'h DB \<Rightarrow> 'h DB" where
  "DB_at n d =
     \<lparr>DB_AllEvents = (\<lambda>namespace. DB_AllEvents d n),
      DB_EventsForService = (\<lambda>namespace. DB_EventsForService d n),
      DB_LogEvent = (\<lambda>namespace. DB_LogEvent d n),
      DB_ChangeState = (\<lambda>namespace. DB_ChangeState d n)\<rparr>"

definition Automator_at :: "string \<Rightarrow> 'a Automator \<Rightarrow> 'a Automator" where
  "Automator_at n a =
     \<lparr>Automator_Enable = (\<lambda>namespace. Automator_Enable a n),
      Automator_Disable = (\<lambda>namespace. Automator_Disable a n)\<rparr>"

definition service_at :: "string \<Rightarrow> ('i, 'p, 'h, 'a) service \<Rightarrow> ('i, 'p, 'h, 'a) service" where
  "service_at n s =
     \<lparr>registry = registry s,
      platform = map_option (Cluster_at n) (platform s),
      automator = Automator_at n (automator s),
      history = DB_at n (history s)\<rparr>"

section \<open>Properties\<close>

subsection \<open>The history store and the registry of the scenario\<close>

lemma store_events_LogEvent:
  "store_events (store_LogEvent n v msg h) n' v' =
     (if (n', v') = (n, v) then store_events h n v @ [msg] else store_events h n' v')"
  by (auto simp: store_events_def store_LogEvent_def store_record_def split: option.splits)

lemma store_state_LogEvent:
  "(n', v') \<noteq> (n, v) \<Longrightarrow> store_state (store_LogEvent n v msg h) n' v' = store_state h n' v'"
  by (auto simp: store_state_def store_LogEvent_def)

lemma store_events_ChangeState:
  "store_events (store_ChangeState n v st h) n' v' = store_events h n' v'"
  by (auto simp: store_events_def store_ChangeState_def store_record_def split: option.splits)

lemma store_state_ChangeState:
  "store_state (store_ChangeState n v st h) n' v' =
     (if (n', v') = (n, v) then Some st else store_state h n' v')"
  by (auto simp: store_state_def store_ChangeState_def)

text \<open>The store of the scenario is a history store in the sense of the spec.\<close>

lemma storeDB_keeps_log_and_register:
  "keeps_log_and_register storeDB store_events store_state"
  unfolding keeps_log_and_register_def
  by (simp add: storeDB_def store_events_LogEvent store_events_ChangeState
      store_state_ChangeState store_state_LogEvent)

text \<open>
  \<open>ParseImage\<close> strips the tag: of a reference made of a name, a colon and a tag
  without colon and slash, the name is left.
\<close>

lemma ParseImage_strips_tag:
  assumes "CHR '':'' \<notin> set tag" and "CHR ''/'' \<notin> set tag"
  shows "ParseImage (name @ '':'' @ tag) =
     \<lparr>TaggedImage_Name = name, TaggedImage_Tag = tag, TaggedImage_CreatedAt = 0\<rparr>"
proof -
  have "takeWhile (\<lambda>c. c \<noteq> CHR '':'') (rev tag @ CHR '':'' # rev name) = rev tag"
    using assms(1) by (subst takeWhile_append2) auto
  then have "rev (takeWhile (\<lambda>c. c \<noteq> CHR '':'') (rev (name @ '':'' @ tag))) = tag"
    by simp
  then show ?thesis
    using assms(2) by (simp add: ParseImage_def Let_def)
qed

subsection \<open>Release\<close>

text \<open>
  What \<^verbatim>\<open>Release\<close> does with a platform: it returns the result of the rolling update,
  and the history database has seen three commands in this order, the change to
  InProgress, one event, and the change to Rest.
\<close>

lemma Release_history_calls:
  assumes "platform s = Some p"
  shows "Release s namespace service newDef updatePeriod w =
     (Cluster_Release p namespace service newDef updatePeriod,
      w\<lparr>history_state :=
          DB_ChangeState (history s) namespace service StateRest
            (DB_LogEvent (history s) namespace service
               (release_event (Cluster_Release p namespace service newDef updatePeriod))
               (DB_ChangeState (history s) namespace service StateInProgress
                  (history_state w)))\<rparr>)"
  using assms by (simp add: Release_def Let_def release_event_def split: option.splits)

text \<open>
  \<^bold>\<open>C1.\<close> For every \<^verbatim>\<open>Release\<close> call on a service constructed with a platform,
  whether the rolling update of the platform returns success or an error, exactly one
  audit event is appended to the history of that (namespace, workload), with the text
  \<^verbatim>\<open>Release failed: <error text>\<close> when the rolling update returned an error and
  \<^verbatim>\<open>Release succeeded\<close> otherwise, and afterwards the state register of that
  (namespace, workload) is Rest. In terms of the interface: after the change to
  InProgress the history database receives one \<^verbatim>\<open>LogEvent\<close> with that text and then
  the change to Rest, and nothing else. In terms of the history: on every store that
  keeps a log and a register as the spec describes, the log of the workload has grown by
  that one event, its register reads Rest, and the logs and registers of the other
  workloads are as before. The automator is not touched.
\<close>

theorem Release_audit_event_and_rest:
  assumes "platform s = Some p"
    and "Cluster_Release p namespace service newDef updatePeriod = err"
    and "msg = (case err of None \<Rightarrow> ''Release succeeded''
                | Some e \<Rightarrow> ''Release failed: '' @ Error e)"
    and "snd (Release s namespace service newDef updatePeriod w) = w'"
  shows "history_state w' =
       DB_ChangeState (history s) namespace service StateRest
         (DB_LogEvent (history s) namespace service msg
            (DB_ChangeState (history s) namespace service StateInProgress
               (history_state w))) \<and>
     automator_state w' = automator_state w \<and>
     (keeps_log_and_register (history s) events state \<longrightarrow>
        events (history_state w') namespace service =
          events (history_state w) namespace service @ [msg] \<and>
        state (history_state w') namespace service = Some StateRest \<and>
        (\<forall>n v. (n, v) \<noteq> (namespace, service) \<longrightarrow>
           events (history_state w') n v = events (history_state w) n v \<and>
           state (history_state w') n v = state (history_state w) n v))"
proof -
  let ?d = "history s"
  let ?h1 = "DB_ChangeState ?d namespace service StateInProgress (history_state w)"
  let ?h2 = "DB_LogEvent ?d namespace service msg ?h1"
  let ?h3 = "DB_ChangeState ?d namespace service StateRest ?h2"
  have t: "release_event err = msg"
    using assms(3) by (simp add: release_event_def)
  have run: "w' = w\<lparr>history_state := ?h3\<rparr>"
    using Release_history_calls [OF assms(1), of namespace service newDef updatePeriod w]
      assms(2,4) t by simp
  have calls: "history_state w' = ?h3" and auto: "automator_state w' = automator_state w"
    unfolding run by simp_all
  have store: "events ?h3 namespace service = events (history_state w) namespace service @ [msg] \<and>
      state ?h3 namespace service = Some StateRest \<and>
      (\<forall>n v. (n, v) \<noteq> (namespace, service) \<longrightarrow>
         events ?h3 n v = events (history_state w) n v \<and>
         state ?h3 n v = state (history_state w) n v)"
    if laws: "keeps_log_and_register ?d events state"
  proof -
    note l = laws [unfolded keeps_log_and_register_def]
    note ev_log = l [THEN conjunct1, rule_format]
      and st_log = l [THEN conjunct2, THEN conjunct1, rule_format]
      and ev_chg = l [THEN conjunct2, THEN conjunct2, THEN conjunct1, rule_format]
      and st_chg = l [THEN conjunct2, THEN conjunct2, THEN conjunct2, rule_format]
    have e: "events ?h3 namespace service =
        events (history_state w) namespace service @ [msg]"
      by (simp add: ev_chg ev_log)
    have r: "state ?h3 namespace service = Some StateRest"
      by (simp add: st_chg)
    have o: "events ?h3 n v = events (history_state w) n v \<and>
        state ?h3 n v = state (history_state w) n v"
      if "(n, v) \<noteq> (namespace, service)" for n v
      using that by (simp add: ev_chg ev_log st_chg st_log)
    from e r o show ?thesis by blast
  qed
  from calls auto store show ?thesis
    unfolding calls by blast
qed

theorem Release_audit_event_and_rest_witness:
  "platform (scenario_service (Some (scenario_cluster (Some timeout_error)))) =
     Some (scenario_cluster (Some timeout_error)) \<and>
   keeps_log_and_register
     (history (scenario_service (Some (scenario_cluster (Some timeout_error)))))
     store_events store_state \<and>
   Cluster_Release (scenario_cluster (Some timeout_error)) ''prod'' ''web'' [] 30000000000 =
     Some timeout_error \<and>
   store_events (history_state scenario_world) ''prod'' ''web'' = [] \<and>
   store_events
     (history_state
        (snd (Release (scenario_service (Some (scenario_cluster (Some timeout_error))))
                ''prod'' ''web'' [] 30000000000 scenario_world)))
     ''prod'' ''web'' = [''Release failed: timeout''] \<and>
   store_state
     (history_state
        (snd (Release (scenario_service (Some (scenario_cluster (Some timeout_error))))
                ''prod'' ''web'' [] 30000000000 scenario_world)))
     ''prod'' ''web'' = Some StateRest \<and>
   store_events
     (history_state
        (snd (Release (scenario_service (Some (scenario_cluster (Some timeout_error))))
                ''prod'' ''web'' [] 30000000000 scenario_world)))
     ''prod'' ''shop'' = []"
proof -
  let ?p = "scenario_cluster (Some timeout_error)"
  let ?s = "scenario_service (Some ?p)"
  let ?w' = "snd (Release ?s ''prod'' ''web'' [] 30000000000 scenario_world)"
  have a: "platform ?s = Some ?p" and h: "history ?s = storeDB"
    by (simp_all add: scenario_service_def NewService_def)
  have b: "keeps_log_and_register (history ?s) store_events store_state"
    unfolding h by (rule storeDB_keeps_log_and_register)
  have c: "Cluster_Release ?p ''prod'' ''web'' [] 30000000000 = Some timeout_error"
    by (simp add: scenario_cluster_def)
  have m: "''Release failed: timeout'' =
      (case Some timeout_error of None \<Rightarrow> ''Release succeeded''
       | Some e \<Rightarrow> ''Release failed: '' @ Error e)"
    by (simp add: timeout_error_def)
  have d: "store_events (history_state scenario_world) n v = []" for n v
    by (simp add: scenario_world_def store_events_def)
  have o: "(''prod'', ''shop'') \<noteq> (''prod'', ''web'')"
    by simp
  note r = Release_audit_event_and_rest [where events = store_events and state = store_state,
      OF a c m refl, THEN conjunct2, THEN conjunct2, rule_format, OF b]
  have e: "store_events (history_state ?w') ''prod'' ''web'' = [''Release failed: timeout'']"
    using r [THEN conjunct1] by (simp add: d)
  have f: "store_state (history_state ?w') ''prod'' ''web'' = Some StateRest"
    by (rule r [THEN conjunct2, THEN conjunct1])
  have g: "store_events (history_state ?w') ''prod'' ''shop'' = []"
    using r [THEN conjunct2, THEN conjunct2, rule_format, OF o] by (simp add: d)
  show ?thesis
    by (intro conjI) (rule a b c d e f g)+
qed

text \<open>
  \<^bold>\<open>C2.\<close> If the service was constructed without a platform (the reference is
  \<^verbatim>\<open>nil\<close>), then both \<^verbatim>\<open>Services\<close> and \<^verbatim>\<open>Release\<close> return
  \<^verbatim>\<open>ErrNoPlatformConfigured\<close>, and \<^verbatim>\<open>Release\<close> changes nothing of the history:
  no change of a state register and no event.
\<close>

theorem no_platform_configured:
  assumes "platform s = None"
  shows "Services s namespace w = (([], Some ErrNoPlatformConfigured), w) \<and>
     Release s namespace service newDef updatePeriod w = (Some ErrNoPlatformConfigured, w)"
  using assms by (simp add: Services_def Release_def)

theorem no_platform_configured_witness:
  "platform (scenario_service None) = None \<and>
   Services (scenario_service None) ''prod'' scenario_world =
     (([], Some ErrNoPlatformConfigured), scenario_world) \<and>
   Release (scenario_service None) ''prod'' ''web'' [] 30000000000 scenario_world =
     (Some ErrNoPlatformConfigured, scenario_world)"
proof -
  have a: "platform (scenario_service None) = None"
    by (simp add: scenario_service_def NewService_def)
  show ?thesis
    using a no_platform_configured [OF a] by simp
qed

text \<open>
  \<^bold>\<open>C3.\<close> For every \<^verbatim>\<open>Release\<close> call on a service constructed with a platform,
  the value that \<^verbatim>\<open>Release\<close> returns is exactly the error, or \<^verbatim>\<open>nil\<close>, that the
  rolling update of the platform returned; the commands to the history database, whatever
  the database does with them, do not alter it.
\<close>

theorem Release_returns_rolling_update_result:
  assumes "platform s = Some p"
  shows "fst (Release s namespace service newDef updatePeriod w) =
     Cluster_Release p namespace service newDef updatePeriod"
  using assms by (simp add: Release_def Let_def)

theorem Release_returns_rolling_update_result_witness:
  "platform (scenario_service (Some (scenario_cluster (Some timeout_error)))) =
     Some (scenario_cluster (Some timeout_error)) \<and>
   fst (Release (scenario_service (Some (scenario_cluster (Some timeout_error))))
          ''prod'' ''web'' [] 30000000000 scenario_world) = Some timeout_error"
proof -
  let ?p = "scenario_cluster (Some timeout_error)"
  have a: "platform (scenario_service (Some ?p)) = Some ?p"
    by (simp add: scenario_service_def NewService_def)
  have c: "Cluster_Release ?p ''prod'' ''web'' [] 30000000000 = Some timeout_error"
    by (simp add: scenario_cluster_def)
  show ?thesis
    using a c
      Release_returns_rolling_update_result [OF a, of "''prod''" "''web''" "[]" 30000000000
        scenario_world]
    by simp
qed

subsection \<open>Images\<close>

text \<open>
  \<^bold>\<open>C8.\<close> For every repository identifier, \<^verbatim>\<open>Images\<close> is a pass-through: when the
  registry returns a repository, \<^verbatim>\<open>Images\<close> returns the image list of that repository
  exactly as the registry provided it, neither sorted again nor filtered; when the
  registry returns an error, \<^verbatim>\<open>Images\<close> returns that error unchanged; and in all
  cases \<^verbatim>\<open>Images\<close> leaves the history and the automator as they were.
\<close>

theorem Images_pass_through:
  assumes "Client_GetRepository (registry s) repository = (repo, err)"
  shows "(err = None \<longrightarrow> Images s repository w = ((Repository_Images repo, None), w)) \<and>
     (err \<noteq> None \<longrightarrow> Images s repository w = (([], err), w))"
  using assms by (simp add: Images_def)

theorem Images_pass_through_witness:
  "Client_GetRepository (registry (scenario_service None)) ''app'' =
     (\<lparr>Repository_Images = app_images\<rparr>, None) \<and>
   Images (scenario_service None) ''app'' scenario_world = ((app_images, None), scenario_world) \<and>
   Client_GetRepository (registry (scenario_service None)) ''kv'' =
     (\<lparr>Repository_Images = []\<rparr>, Some (GoError OtherError ''repository not found'')) \<and>
   Images (scenario_service None) ''kv'' scenario_world =
     (([], Some (GoError OtherError ''repository not found'')), scenario_world)"
proof -
  let ?s = "scenario_service None"
  have a: "Client_GetRepository (registry ?s) ''app'' = (\<lparr>Repository_Images = app_images\<rparr>, None)"
    by (simp add: scenario_service_def NewService_def scenario_registry_def)
  have b: "Client_GetRepository (registry ?s) ''kv'' =
      (\<lparr>Repository_Images = []\<rparr>, Some (GoError OtherError ''repository not found''))"
    by (simp add: scenario_service_def NewService_def scenario_registry_def)
  show ?thesis
    using a b Images_pass_through [OF a, of scenario_world]
      Images_pass_through [OF b, of scenario_world]
    by simp
qed

subsection \<open>ServiceImages\<close>

text \<open>One round of the loop, in terms of the lookup of the container.\<close>

lemma ServiceImages_loop_step:
  "ServiceImages_loop reg (c # cs) acc =
     (if snd (container_lookup reg c) \<noteq> None then ([], snd (container_lookup reg c))
      else ServiceImages_loop reg cs (acc @ [container_images reg c]))"
  by (simp add: container_lookup_def container_repository_def container_images_def
      split: prod.splits)

lemma ServiceImages_loop_error:
  "ServiceImages_loop reg cs acc = (res, Some e) \<Longrightarrow> res = []"
proof (induction cs arbitrary: acc)
  case Nil
  then show ?case by simp
next
  case (Cons c cs)
  then show ?case
    by (cases "snd (container_lookup reg c)")
      (auto simp: ServiceImages_loop_step simp del: ServiceImages_loop.simps(2))
qed

lemma ServiceImages_loop_first_failure:
  assumes "\<forall>c \<in> set pre. snd (container_lookup reg c) = None"
    and "snd (container_lookup reg k) = Some e"
  shows "ServiceImages_loop reg (pre @ k # post) acc = ([], Some e)"
  using assms(1)
proof (induction pre arbitrary: acc)
  case Nil
  show ?case
    using assms(2) by (simp add: ServiceImages_loop_step del: ServiceImages_loop.simps(2))
next
  case (Cons c pre)
  then show ?case
    by (simp add: ServiceImages_loop_step del: ServiceImages_loop.simps(2))
qed


text \<open>
  \<^bold>\<open>C4.\<close> For every namespace and workload with N running containers, if the
  repository lookup of one container fails, then \<^verbatim>\<open>ServiceImages\<close> returns the error
  of that lookup together with no partial result: the returned list is empty, never a list
  of fewer than N entries or a list with a missing image set. Three statements: the
  lookup that fails in a run is the first one, in the order of the containers, that the
  registry answers with an error, and \<^verbatim>\<open>ServiceImages\<close> returns its error and the
  empty list; if the registry answers the lookup of any of the containers with an error,
  \<^verbatim>\<open>ServiceImages\<close> returns the error of such a lookup and the empty list; and no
  error of \<^verbatim>\<open>ServiceImages\<close> whatsoever comes with a list that is not empty.
\<close>

theorem ServiceImages_fail_fast:
  assumes "platform s = Some p"
  shows "(Cluster_ContainersFor p namespace service = (pre @ k # post, None) \<and>
      (\<forall>c \<in> set pre. snd (container_lookup (registry s) c) = None) \<and>
      snd (container_lookup (registry s) k) = Some e \<longrightarrow>
        ServiceImages through_nil s namespace service w = (Returns ([], Some e), w)) \<and>
     (Cluster_ContainersFor p namespace service = (containers, None) \<and>
      (\<exists>c \<in> set containers. snd (container_lookup (registry s) c) \<noteq> None) \<longrightarrow>
        (\<exists>c \<in> set containers. \<exists>e.
           snd (container_lookup (registry s) c) = Some e \<and>
           ServiceImages through_nil s namespace service w = (Returns ([], Some e), w))) \<and>
     (fst (ServiceImages through_nil s namespace service w) = Returns (res, Some e') \<longrightarrow> res = [])"
proof -
  let ?fails = "\<lambda>c. snd (container_lookup (registry s) c) \<noteq> None"
  have first: "ServiceImages through_nil s namespace service w = (Returns ([], Some e), w)"
    if "Cluster_ContainersFor p namespace service = (pre @ k # post, None)"
      and "\<forall>c \<in> set pre. snd (container_lookup (registry s) c) = None"
      and "snd (container_lookup (registry s) k) = Some e"
    for pre k post e
    using that(1) ServiceImages_loop_first_failure [OF that(2,3)] assms
    by (simp add: ServiceImages_def)
  have some: "\<exists>c \<in> set containers. \<exists>e.
      snd (container_lookup (registry s) c) = Some e \<and>
      ServiceImages through_nil s namespace service w = (Returns ([], Some e), w)"
    if cs: "Cluster_ContainersFor p namespace service = (containers, None)"
      and ex: "\<exists>c \<in> set containers. ?fails c"
  proof -
    from split_list_first_prop [OF ex] obtain pre c post
      where sp: "containers = pre @ c # post" and f: "?fails c"
        and ok: "\<forall>x \<in> set pre. \<not> ?fails x"
      by blast
    from f obtain e where e: "snd (container_lookup (registry s) c) = Some e"
      by blast
    from ok have ok': "\<forall>x \<in> set pre. snd (container_lookup (registry s) x) = None"
      by simp
    from first [OF cs [unfolded sp] ok' e] e sp show ?thesis
      by auto
  qed
  have none: "res = []"
    if "fst (ServiceImages through_nil s namespace service w) = Returns (res, Some e')"
  proof (cases "Cluster_ContainersFor p namespace service")
    case (Pair cs err)
    show ?thesis
    proof (cases err)
      case None
      with Pair that assms have "ServiceImages_loop (registry s) cs [] = (res, Some e')"
        by (simp add: ServiceImages_def)
      then show ?thesis by (rule ServiceImages_loop_error)
    next
      case (Some x)
      with Pair that assms show ?thesis by (simp add: ServiceImages_def)
    qed
  qed
  from first some none show ?thesis by blast
qed

theorem ServiceImages_fail_fast_witness:
  "platform (scenario_service (Some (scenario_cluster None))) = Some (scenario_cluster None) \<and>
   Cluster_ContainersFor (scenario_cluster None) ''prod'' ''shop'' =
     ([\<lparr>Container_Name = ''front'', Container_Image = ''app:v2''\<rparr>] @
      \<lparr>Container_Name = ''cache'', Container_Image = ''kv:v7''\<rparr> #
      [\<lparr>Container_Name = ''api'', Container_Image = ''app:v1''\<rparr>], None) \<and>
   snd (container_lookup (registry (scenario_service (Some (scenario_cluster None))))
          \<lparr>Container_Name = ''front'', Container_Image = ''app:v2''\<rparr>) = None \<and>
   snd (container_lookup (registry (scenario_service (Some (scenario_cluster None))))
          \<lparr>Container_Name = ''cache'', Container_Image = ''kv:v7''\<rparr>) =
     Some (GoError OtherError ''repository not found'') \<and>
   ServiceImages reading_ContainersFor (scenario_service (Some (scenario_cluster None))) ''prod'' ''shop''
       scenario_world =
     (Returns ([], Some (GoError OtherError ''repository not found'')), scenario_world)"
proof -
  let ?p = "scenario_cluster None"
  let ?s = "scenario_service (Some ?p)"
  let ?front = "\<lparr>Container_Name = ''front'', Container_Image = ''app:v2''\<rparr>"
  let ?cache = "\<lparr>Container_Name = ''cache'', Container_Image = ''kv:v7''\<rparr>"
  let ?api = "\<lparr>Container_Name = ''api'', Container_Image = ''app:v1''\<rparr>"
  let ?e = "GoError OtherError ''repository not found''"
  have a: "platform ?s = Some ?p"
    by (simp add: scenario_service_def NewService_def)
  have b: "Cluster_ContainersFor ?p ''prod'' ''shop'' = ([?front] @ ?cache # [?api], None)"
    by (simp add: scenario_cluster_def)
  have app: "ParseImage ''app:v2'' =
      \<lparr>TaggedImage_Name = ''app'', TaggedImage_Tag = ''v2'', TaggedImage_CreatedAt = 0\<rparr>"
    using ParseImage_strips_tag [of "''v2''" "''app''"] by simp
  have kv: "ParseImage ''kv:v7'' =
      \<lparr>TaggedImage_Name = ''kv'', TaggedImage_Tag = ''v7'', TaggedImage_CreatedAt = 0\<rparr>"
    using ParseImage_strips_tag [of "''v7''" "''kv''"] by simp
  have c: "snd (container_lookup (registry ?s) ?front) = None"
    by (simp add: container_lookup_def container_repository_def scenario_service_def
        NewService_def scenario_registry_def app)
  have d: "snd (container_lookup (registry ?s) ?cache) = Some ?e"
    by (simp add: container_lookup_def container_repository_def scenario_service_def
        NewService_def scenario_registry_def kv)
  have pre: "\<forall>x \<in> set [?front]. snd (container_lookup (registry ?s) x) = None"
    using c by simp
  from ServiceImages_fail_fast [OF a, where namespace = "''prod''" and service = "''shop''"
      and pre = "[?front]" and k = ?cache and post = "[?api]" and e = ?e
      and through_nil = reading_ContainersFor and w = scenario_world]
  have "ServiceImages reading_ContainersFor ?s ''prod'' ''shop'' scenario_world = (Returns ([], Some ?e), scenario_world)"
    using b pre d by blast
  with a b c d show ?thesis by simp
qed






subsection \<open>History\<close>

text \<open>
  \<^bold>\<open>C5.\<close> For every namespace and non-empty workload identifier, if the history
  store reports the no-history condition for that workload, \<^verbatim>\<open>History\<close> returns
  success with a mapping to a synthesized record that has the state Unknown and no
  events, rather than an error; any other error of the history store is returned to the
  caller unchanged.
\<close>

theorem History_no_history_normalised:
  assumes "service \<noteq> []"
    and "DB_EventsForService (history s) namespace service (history_state w) = (h, err)"
  shows "(is_ErrNoHistory err \<longrightarrow>
       History s namespace service w =
         (([service \<mapsto> \<lparr>History_Service = service, History_State = StateUnknown,
                           History_Events = []\<rparr>], None), w)) \<and>
     (err \<noteq> None \<and> \<not> is_ErrNoHistory err \<longrightarrow>
       History s namespace service w = ((Map.empty, err), w))"
  using assms by (simp add: History_def)

theorem History_no_history_normalised_witness:
  "''web'' \<noteq> [] \<and>
   DB_EventsForService (history (scenario_service None)) ''prod'' ''web''
       (history_state scenario_world) =
     (\<lparr>History_Service = [], History_State = StateUnknown, History_Events = []\<rparr>,
      Some ErrNoHistory) \<and>
   is_ErrNoHistory (Some ErrNoHistory) \<and>
   History (scenario_service None) ''prod'' ''web'' scenario_world =
     (([''web'' \<mapsto> \<lparr>History_Service = ''web'', History_State = StateUnknown,
                       History_Events = []\<rparr>], None), scenario_world)"
proof -
  have a: "''web'' \<noteq> []"
    by simp
  have b: "DB_EventsForService (history (scenario_service None)) ''prod'' ''web''
       (history_state scenario_world) =
     (\<lparr>History_Service = [], History_State = StateUnknown, History_Events = []\<rparr>,
      Some ErrNoHistory)"
    by (simp add: scenario_service_def NewService_def storeDB_def store_EventsForService_def
        scenario_world_def)
  have c: "is_ErrNoHistory (Some ErrNoHistory)"
    by (simp add: is_ErrNoHistory_def ErrNoHistory_def)
  show ?thesis
    using a b c History_no_history_normalised [OF a b] by simp
qed

text \<open>
  \<^bold>\<open>C6\<close>, as stated: for every namespace and non-empty workload identifier, whenever
  \<^verbatim>\<open>History\<close> succeeds it returns a mapping of exactly one entry whose key is the
  requested workload identifier, both when the store returns a record and when a
  no-history record is synthesized. The key of the entry is the \<^verbatim>\<open>Service\<close> field of
  the record, and when the store returns the record that field is the store's choice: on
  a history database that labels the record of \<^verbatim>\<open>web\<close> in \<^verbatim>\<open>prod\<close> with
  \<^verbatim>\<open>prod/web\<close>, \<^verbatim>\<open>History\<close> succeeds and the key is not \<^verbatim>\<open>web\<close>.
\<close>

theorem History_key_counterexample:
  "''web'' \<noteq> [] \<and>
   snd (fst (History qualifying_service ''prod'' ''web'' qualifying_world)) = None \<and>
   dom (fst (fst (History qualifying_service ''prod'' ''web'' qualifying_world))) =
     {''prod/web''} \<and>
   dom (fst (fst (History qualifying_service ''prod'' ''web'' qualifying_world))) \<noteq> {''web''}"
  by (simp add: History_def qualifying_service_def NewService_def qualifyingDB_def
      qualified_record_def is_ErrNoHistory_def)

text \<open>
  \<^bold>\<open>C6\<close>, amended: for every namespace and non-empty workload identifier, whenever
  \<^verbatim>\<open>History\<close> succeeds the store has reported no history or no error, and the result
  is a mapping of exactly one entry, whose key is the \<^verbatim>\<open>Service\<close> field of the record
  it maps to: the synthesized record under the requested identifier when the store
  reported no history, the record of the store under the identifier that the store wrote
  into it otherwise. So the key is the requested identifier exactly when the record was
  synthesized or the store labelled its record with the requested identifier.
\<close>

theorem History_single_entry:
  assumes "service \<noteq> []"
    and "History s namespace service w = ((m, None), w')"
    and "DB_EventsForService (history s) namespace service (history_state w) = (h, err)"
  shows "(is_ErrNoHistory err \<or> err = None) \<and>
     (is_ErrNoHistory err \<longrightarrow>
        m = [service \<mapsto> \<lparr>History_Service = service, History_State = StateUnknown,
                          History_Events = []\<rparr>]) \<and>
     (err = None \<longrightarrow> m = [History_Service h \<mapsto> h]) \<and>
     (\<exists>k r. m = [k \<mapsto> r] \<and> History_Service r = k) \<and>
     (dom m = {service} \<longleftrightarrow> is_ErrNoHistory err \<or> History_Service h = service) \<and>
     w' = w"
proof (cases "is_ErrNoHistory err")
  case True
  let ?r = "\<lparr>History_Service = service, History_State = StateUnknown, History_Events = []\<rparr>"
  from True obtain x where e: "err = Some x"
    by (cases err) (simp_all add: is_ErrNoHistory_def)
  from True assms have m: "m = [service \<mapsto> ?r]" and w: "w' = w"
    by (simp_all add: History_def)
  have "m = [service \<mapsto> ?r] \<and> History_Service ?r = service"
    using m by simp
  then have ex: "\<exists>k r. m = [k \<mapsto> r] \<and> History_Service r = k"
    by blast
  have d: "dom m = {service}"
    using m by simp
  from True e m w ex d show ?thesis by simp
next
  case False
  with assms have e: "err = None" and m: "m = [History_Service h \<mapsto> h]" and w: "w' = w"
    by (auto simp: History_def split: if_splits)
  have ex: "\<exists>k r. m = [k \<mapsto> r] \<and> History_Service r = k"
    using m by blast
  have d: "dom m = {History_Service h}"
    using m by simp
  from False e m w ex d show ?thesis by auto
qed

theorem History_single_entry_witness:
  "''web'' \<noteq> [] \<and>
   History (scenario_service None) ''prod'' ''web''
       (scenario_world\<lparr>history_state :=
          store_LogEvent ''prod'' ''web'' ''Release succeeded'' Map.empty\<rparr>) =
     (([''web'' \<mapsto> \<lparr>History_Service = ''web'', History_State = StateRest,
                       History_Events = [''Release succeeded'']\<rparr>], None),
      scenario_world\<lparr>history_state :=
          store_LogEvent ''prod'' ''web'' ''Release succeeded'' Map.empty\<rparr>) \<and>
   DB_EventsForService (history (scenario_service None)) ''prod'' ''web''
       (history_state
          (scenario_world\<lparr>history_state :=
             store_LogEvent ''prod'' ''web'' ''Release succeeded'' Map.empty\<rparr>)) =
     (\<lparr>History_Service = ''web'', History_State = StateRest,
       History_Events = [''Release succeeded'']\<rparr>, None) \<and>
   dom [''web'' \<mapsto> \<lparr>History_Service = ''web'', History_State = StateRest,
                      History_Events = [''Release succeeded'']\<rparr>] = {''web''}"
proof -
  let ?w = "scenario_world\<lparr>history_state :=
      store_LogEvent ''prod'' ''web'' ''Release succeeded'' Map.empty\<rparr>"
  let ?r = "\<lparr>History_Service = ''web'', History_State = StateRest,
      History_Events = [''Release succeeded'']\<rparr>"
  have a: "''web'' \<noteq> []"
    by simp
  have c: "DB_EventsForService (history (scenario_service None)) ''prod'' ''web''
      (history_state ?w) = (?r, None)"
    by (simp add: scenario_service_def NewService_def storeDB_def store_EventsForService_def
        store_LogEvent_def store_record_def)
  have b: "History (scenario_service None) ''prod'' ''web'' ?w = (([''web'' \<mapsto> ?r], None), ?w)"
    using c by (simp add: History_def is_ErrNoHistory_def)
  note key = History_single_entry [OF a b c, THEN conjunct2, THEN conjunct2, THEN conjunct2,
      THEN conjunct2, THEN conjunct1]
  have d: "dom [''web'' \<mapsto> ?r] = {''web''}"
    unfolding key by simp
  show ?thesis
    by (intro conjI) (rule a b c d)+
qed

subsection \<open>The namespace\<close>

lemma ServiceImages_at:
  "ServiceImages (\<lambda>namespace. through_nil n) (service_at n s) m service w =
     ServiceImages through_nil s n service w"
  by (cases "platform s")
    (simp_all add: ServiceImages_def service_at_def Cluster_at_def
      split: prod.splits outcome.splits)

lemma Services_at: "Services (service_at n s) m w = Services s n w"
  by (cases "platform s") (simp_all add: Services_def service_at_def Cluster_at_def)

lemma History_at: "History (service_at n s) m service w = History s n service w"
  by (simp add: History_def service_at_def DB_at_def)

lemma Release_at:
  "Release (service_at n s) m service newDef updatePeriod w =
     Release s n service newDef updatePeriod w"
  by (cases "platform s")
    (simp_all add: Release_def Let_def service_at_def Cluster_at_def DB_at_def
      split: option.splits)

lemma Automate_at: "Automate (service_at n s) m service w = Automate s n service w"
  by (simp add: Automate_def service_at_def Automator_at_def)

lemma Deautomate_at: "Deautomate (service_at n s) m service w = Deautomate s n service w"
  by (simp add: Deautomate_def service_at_def Automator_at_def)

text \<open>
  \<^bold>\<open>C10.\<close> The constant \<^verbatim>\<open>DefaultNamespace\<close> is applied by no operation: every
  operation hands its namespace argument to the collaborators as it is, and the empty
  namespace is not treated apart, neither replaced nor rejected. Stated for all
  namespaces \<open>n\<close> and \<open>m\<close> at once: an operation called with \<open>n\<close> does what the same
  operation does, called with \<open>m\<close>, on collaborators that disregard the namespace they are
  given and answer as the original ones do at \<open>n\<close>, the method \<^verbatim>\<open>ContainersFor\<close> at
  the \<^verbatim>\<open>nil\<close> receiver among them. Were some namespace replaced by
  another, or rejected, on its way to the collaborators, the two sides would differ for a
  suitable service; with \<open>n\<close> empty and \<open>m\<close> the default namespace this is the case of the
  constant.
\<close>

theorem namespace_forwarded_verbatim:
  "ServiceImages through_nil s n service w =
     ServiceImages (\<lambda>namespace. through_nil n) (service_at n s) m service w \<and>
   Services s n w = Services (service_at n s) m w \<and>
   History s n service w = History (service_at n s) m service w \<and>
   Release s n service newDef updatePeriod w =
     Release (service_at n s) m service newDef updatePeriod w \<and>
   Automate s n service w = Automate (service_at n s) m service w \<and>
   Deautomate s n service w = Deautomate (service_at n s) m service w"
  by (simp only: ServiceImages_at Services_at History_at Release_at Automate_at Deautomate_at
      simp_thms)

text \<open>
  On the collaborators that echo their namespace, the empty namespace arrives empty at
  each of them, where the default namespace would have arrived as \<^verbatim>\<open>default\<close>.
\<close>

theorem namespace_forwarded_verbatim_witness:
  "Services echo_service [] echo_world = (([[]], None), echo_world) \<and>
   Services echo_service DefaultNamespace echo_world = (([''default''], None), echo_world) \<and>
   Services echo_service [] echo_world =
     Services (service_at [] echo_service) DefaultNamespace echo_world \<and>
   fst (ServiceImages reading_ContainersFor echo_service [] ''web'' echo_world) =
     Returns ([\<lparr>ContainerImages_Container =
                   \<lparr>Container_Name = [], Container_Image = ''app:v1''\<rparr>,
                 ContainerImages_Images = app_images\<rparr>], None) \<and>
   fst (History echo_service [] ''web'' echo_world) = ([[] \<mapsto> echo_record []], None) \<and>
   fst (History echo_service [] [] echo_world) = ([[] \<mapsto> echo_record []], None) \<and>
   Release echo_service [] ''web'' [] 30000000000 echo_world =
     (Some (GoError OtherError []), echo_world\<lparr>history_state := [[], [], []]\<rparr>) \<and>
   Automate echo_service [] ''web'' echo_world =
     (None, echo_world\<lparr>automator_state := [[]]\<rparr>) \<and>
   Deautomate echo_service [] ''web'' echo_world =
     (None, echo_world\<lparr>automator_state := [[]]\<rparr>)"
proof -
  have p: "platform echo_service = Some echo_cluster"
    and r: "registry echo_service = scenario_registry"
    and h: "history echo_service = echoDB"
    and a: "automator echo_service = echo_automator"
    by (simp_all add: echo_service_def NewService_def)
  have app: "ParseImage ''app:v1'' =
      \<lparr>TaggedImage_Name = ''app'', TaggedImage_Tag = ''v1'', TaggedImage_CreatedAt = 0\<rparr>"
    using ParseImage_strips_tag [of "''v1''" "''app''"] by simp
  have 1: "Services echo_service n echo_world = (([n], None), echo_world)" for n
    by (simp add: Services_def p echo_cluster_def)
  have 2: "Services echo_service [] echo_world =
      Services (service_at [] echo_service) DefaultNamespace echo_world"
    using namespace_forwarded_verbatim [where s = echo_service and n = "[]" and w = echo_world
        and m = DefaultNamespace]
    by simp
  have 3: "fst (ServiceImages reading_ContainersFor echo_service [] ''web'' echo_world) =
      Returns ([\<lparr>ContainerImages_Container =
                    \<lparr>Container_Name = [], Container_Image = ''app:v1''\<rparr>,
                  ContainerImages_Images = app_images\<rparr>], None)"
    by (simp add: ServiceImages_def p r echo_cluster_def scenario_registry_def app)
  have 4: "fst (History echo_service [] ''web'' echo_world) = ([[] \<mapsto> echo_record []], None)"
    by (simp add: History_def h echoDB_def is_ErrNoHistory_def echo_record_def)
  have 5: "fst (History echo_service [] [] echo_world) = ([[] \<mapsto> echo_record []], None)"
    by (simp add: History_def h echoDB_def)
  have 6: "Release echo_service [] ''web'' [] 30000000000 echo_world =
      (Some (GoError OtherError []), echo_world\<lparr>history_state := [[], [], []]\<rparr>)"
    by (simp add: Release_def Let_def p h echo_cluster_def echoDB_def echo_world_def)
  have 7: "Automate echo_service [] ''web'' echo_world =
      (None, echo_world\<lparr>automator_state := [[]]\<rparr>)"
    by (simp add: Automate_def a echo_automator_def echo_world_def)
  have 8: "Deautomate echo_service [] ''web'' echo_world =
      (None, echo_world\<lparr>automator_state := [[]]\<rparr>)"
    by (simp add: Deautomate_def a echo_automator_def echo_world_def)
  have 9: "Services echo_service DefaultNamespace echo_world =
      (([''default''], None), echo_world)"
    by (simp add: 1 DefaultNamespace_def)
  have 0: "Services echo_service [] echo_world = (([[]], None), echo_world)"
    by (rule 1)
  show ?thesis
    by (intro conjI) (rule 0 9 2 3 4 5 6 7 8)+
qed

end
